theory Spec2Isabelle
  imports Complex_Main "HOL-Library.Sublist" "HOL-Library.Char_ord" "HOL-Library.List_Lexorder"
    "HOL-Library.Multiset"
begin

section \<open>Strings\<close>

text \<open>
  JavaScript strings are modelled as \<open>string\<close> (lists of 8-bit characters), so the
  development speaks about names written in ASCII: \<open>toLowerCase\<close> maps \<open>A\<close>..\<open>Z\<close> to
  \<open>a\<close>..\<open>z\<close> and leaves every other character alone, \<open>trim\<close> removes the ASCII white
  space (tab, line feed, vertical tab, form feed, carriage return, space), and
  \<open>length\<close> counts characters.
\<close>

definition toLowerCase_char :: "char \<Rightarrow> char" where
  "toLowerCase_char c =
     (let n = (of_char c :: nat) in if 65 \<le> n \<and> n \<le> 90 then char_of (n + 32) else c)"

definition toLowerCase :: "string \<Rightarrow> string" where
  "toLowerCase s = map toLowerCase_char s"

definition isWhiteSpace :: "char \<Rightarrow> bool" where
  "isWhiteSpace c = (let n = (of_char c :: nat) in (9 \<le> n \<and> n \<le> 13) \<or> n = 32)"

definition isDigit :: "char \<Rightarrow> bool" where
  "isDigit c = (let n = (of_char c :: nat) in 48 \<le> n \<and> n \<le> 57)"

definition trim :: "string \<Rightarrow> string" where
  "trim s = rev (dropWhile isWhiteSpace (rev (dropWhile isWhiteSpace s)))"

text \<open>\<open>s.endsWith(t)\<close>.\<close>

definition endsWith :: "string \<Rightarrow> string \<Rightarrow> bool" where
  "endsWith s t = (length t \<le> length s \<and> drop (length s - length t) s = t)"

text \<open>\<open>s.replace(/\.pdf$/i, '')\<close>: one trailing \<open>.pdf\<close>, in any letter case, is removed.\<close>

definition stripPdf :: "string \<Rightarrow> string" where
  "stripPdf s =
     (if endsWith (toLowerCase s) ''.pdf'' then take (length s - 4) s else s)"

text \<open>\<open>hay.includes(needle)\<close>: \<open>needle\<close> occurs in \<open>hay\<close> as a contiguous substring.\<close>

definition includes_str :: "string \<Rightarrow> string \<Rightarrow> bool" where
  "includes_str hay needle = sublist needle hay"

section \<open>Data model\<close>

text \<open>
  The records follow the interfaces \<open>RailDocument\<close>, \<open>Citation\<close>, \<open>ChatMessage\<close> and
  \<open>GeminiResponse\<close> of the sources, field for field. Field names are prefixed with
  the record they belong to (\<open>doc_name\<close> is \<open>RailDocument.name\<close>, \<open>cit_page\<close> is
  \<open>Citation.page\<close>, and so on). Dates are their \<open>getTime()\<close> value in milliseconds,
  the bytes of a \<open>Uint8Array\<close> are natural numbers below 256, and the optional
  \<open>page\<close> of a citation, which the response schema declares an integer, is an
  \<open>int option\<close>.
\<close>

record RailDocument =
  doc_id :: string
  doc_name :: string
  doc_content :: string
  doc_size :: nat
  doc_uploadDate :: int
  doc_pdfData :: "nat list"

record Citation =
  cit_standard :: string
  cit_clause :: string
  cit_page :: "int option"

datatype Role = User | Assistant

record ChatMessage =
  msg_id :: string
  msg_role :: Role
  msg_text :: string
  msg_citations :: "Citation list option"
  msg_timestamp :: int

record ActiveClause =
  ac_standardName :: string
  ac_clauseNumber :: string
  ac_pdfData :: "nat list"
  ac_page :: int

section \<open>Citation resolution (\<open>handleCitationClick\<close>, first half)\<close>

text \<open>
  \<open>candidates.sort((a, b) => |a.name.length - n| - |b.name.length - n|)\<close> is a stable
  sort on the key \<open>|name.length - n|\<close>; \<open>sort_key\<close> is the stable insertion sort.
\<close>

definition lengthDistance :: "string \<Rightarrow> RailDocument \<Rightarrow> int" where
  "lengthDistance standard d = \<bar>int (length (doc_name d)) - int (length standard)\<bar>"

definition resolveCitation :: "string \<Rightarrow> RailDocument list \<Rightarrow> RailDocument option" where
  "resolveCitation standard documents =
     (let target = trim (toLowerCase standard);
          targetNoExt = stripPdf target
      in case find (\<lambda>d. let docName = toLowerCase (doc_name d);
                             docNameNoExt = stripPdf docName
                         in docName = target \<or> docNameNoExt = targetNoExt) documents of
           Some doc \<Rightarrow> Some doc
         | None \<Rightarrow>
             (let candidates = filter (\<lambda>d. let docNameNoExt = stripPdf (toLowerCase (doc_name d))
                                           in includes_str docNameNoExt targetNoExt
                                              \<or> includes_str targetNoExt docNameNoExt) documents
              in if length candidates > 0
                 then Some (hd (sort_key (lengthDistance standard) candidates))
                 else None))"

section \<open>The local store (\<open>storageService.ts\<close>)\<close>

text \<open>
  An IndexedDB object store with \<open>keyPath: 'id'\<close> holds at most one record per
  identifier and hands its records out in ascending key order. It is modelled as
  an association list kept sorted by key. A request of the source either
  succeeds or fires \<open>onerror\<close>, which rejects the promise; \<open>db_failure\<close> is the
  environment's choice: \<open>None\<close> lets every request succeed, \<open>Some msg\<close> rejects
  every request with that message.
\<close>

type_synonym 'v objectStore = "(string \<times> 'v) list"

fun store_put :: "string \<Rightarrow> 'v \<Rightarrow> 'v objectStore \<Rightarrow> 'v objectStore" where
  "store_put k v [] = [(k, v)]"
| "store_put k v ((k', v') # rest) =
     (if k < k' then (k, v) # (k', v') # rest
      else if k = k' then (k, v) # rest
      else (k', v') # store_put k v rest)"

definition store_delete :: "string \<Rightarrow> 'v objectStore \<Rightarrow> 'v objectStore" where
  "store_delete k st = filter (\<lambda>kv. fst kv \<noteq> k) st"

definition store_getAll :: "'v objectStore \<Rightarrow> 'v list" where
  "store_getAll st = map snd st"

record Database =
  docStore :: "RailDocument objectStore"
  chatStore :: "ChatMessage objectStore"
  db_failure :: "string option"

definition saveDocument :: "RailDocument \<Rightarrow> Database \<Rightarrow> string + Database" where
  "saveDocument doc d =
     (case db_failure d of
        Some msg \<Rightarrow> Inl msg
      | None \<Rightarrow> Inr (d\<lparr>docStore := store_put (doc_id doc) doc (docStore d)\<rparr>))"

definition getAllDocuments :: "Database \<Rightarrow> string + RailDocument list" where
  "getAllDocuments d =
     (case db_failure d of
        Some msg \<Rightarrow> Inl msg
      | None \<Rightarrow> Inr (store_getAll (docStore d)))"

definition deleteDocument :: "string \<Rightarrow> Database \<Rightarrow> string + Database" where
  "deleteDocument ident d =
     (case db_failure d of
        Some msg \<Rightarrow> Inl msg
      | None \<Rightarrow> Inr (d\<lparr>docStore := store_delete ident (docStore d)\<rparr>))"

definition saveChatMessage :: "ChatMessage \<Rightarrow> Database \<Rightarrow> string + Database" where
  "saveChatMessage message d =
     (case db_failure d of
        Some msg \<Rightarrow> Inl msg
      | None \<Rightarrow> Inr (d\<lparr>chatStore := store_put (msg_id message) message (chatStore d)\<rparr>))"

text \<open>
  \<open>history.sort((a, b) => a.timestamp.getTime() - b.timestamp.getTime())\<close>: a stable
  sort of the records, which arrive in key order, on their time stamps.
\<close>

definition getChatHistory :: "Database \<Rightarrow> string + ChatMessage list" where
  "getChatHistory d =
     (case db_failure d of
        Some msg \<Rightarrow> Inl msg
      | None \<Rightarrow> Inr (sort_key msg_timestamp (store_getAll (chatStore d))))"

definition clearChatHistory :: "Database \<Rightarrow> string + Database" where
  "clearChatHistory d =
     (case db_failure d of
        Some msg \<Rightarrow> Inl msg
      | None \<Rightarrow> Inr (d\<lparr>chatStore := []\<rparr>))"

section \<open>Application state (\<open>App.tsx\<close>)\<close>

text \<open>
  The React state of \<open>App\<close> together with the database it talks to. A handler is a
  function from the state before the event to the state after it.
\<close>

record AppState =
  documents :: "RailDocument list"
  chatHistory :: "ChatMessage list"
  inputText :: string
  isProcessingFile :: bool
  isAsking :: bool
  error :: "string option"
  activeClause :: "ActiveClause option"
  db :: Database

text \<open>\<open>err.message || fallback\<close>: an empty message is falsy.\<close>

definition messageOr :: "string \<Rightarrow> string \<Rightarrow> string" where
  "messageOr msg fallback = (if msg = [] then fallback else msg)"

subsection \<open>\<open>handleCitationClick\<close>\<close>

text \<open>
  \<open>Math.max(1, citation.page || 1)\<close>: an absent page and the page \<open>0\<close> are falsy and
  give \<open>1\<close>; any other page is compared with \<open>1\<close>.
\<close>

definition citationPage :: "Citation \<Rightarrow> int" where
  "citationPage citation =
     max 1 (case cit_page citation of None \<Rightarrow> 1 | Some p \<Rightarrow> if p = 0 then 1 else p)"

definition notFoundMessage :: "string \<Rightarrow> string" where
  "notFoundMessage standard =
     ''Standard \"'' @ standard @ ''\" not found in your local library.''"

definition handleCitationClick :: "Citation \<Rightarrow> AppState \<Rightarrow> AppState" where
  "handleCitationClick citation s =
     (let s1 = s\<lparr>error := None\<rparr>
      in case resolveCitation (cit_standard citation) (documents s) of
           None \<Rightarrow> s1\<lparr>error := Some (notFoundMessage (cit_standard citation))\<rparr>
         | Some doc \<Rightarrow>
             s1\<lparr>activeClause := Some \<lparr>ac_standardName = doc_name doc,
                                        ac_clauseNumber = cit_clause citation,
                                        ac_pdfData = doc_pdfData doc,
                                        ac_page = citationPage citation\<rparr>\<rparr>)"

subsection \<open>\<open>removeDocument\<close> and \<open>handleClearChat\<close>\<close>

text \<open>A failed delete is logged to the console and changes nothing.\<close>

definition removeDocument :: "string \<Rightarrow> AppState \<Rightarrow> AppState" where
  "removeDocument ident s =
     (case deleteDocument ident (db s) of
        Inl err \<Rightarrow> s
      | Inr d \<Rightarrow> s\<lparr>db := d, documents := filter (\<lambda>doc. doc_id doc \<noteq> ident) (documents s)\<rparr>)"

text \<open>\<open>handleClearChat\<close> has no handler of its own: a failed clear rejects its promise.\<close>

definition handleClearChat :: "AppState \<Rightarrow> string + AppState" where
  "handleClearChat s =
     (case clearChatHistory (db s) of
        Inl err \<Rightarrow> Inl err
      | Inr d \<Rightarrow> Inr (s\<lparr>db := d, chatHistory := []\<rparr>))"

subsection \<open>\<open>handleAsk\<close>\<close>

text \<open>
  \<open>handleAsk\<close> is an asynchronous function that suspends at the remote query. Its
  run is split there. \<open>handleAsk_begin\<close> is everything up to the call of
  \<open>queryStandards\<close>: it ends \<open>Ignored\<close> when the guard returns at once, \<open>Rejected\<close>
  when saving the user message fails (the \<open>await\<close> is outside the \<open>try\<close>, so the
  handler's promise rejects), and \<open>Querying\<close> with the arguments of the one remote
  call otherwise. \<open>handleAsk_resume\<close> is the rest, run on the state at the time the
  query settles with either its error message or its answer and citations. The
  identifier and time stamp of each new message are what \<open>crypto.randomUUID()\<close> and
  \<open>new Date()\<close> return at that moment.
\<close>

datatype AskStep =
    Ignored
  | Rejected string AppState
  | Querying string "RailDocument list" AppState

definition handleAsk_begin :: "string \<Rightarrow> int \<Rightarrow> AppState \<Rightarrow> AskStep" where
  "handleAsk_begin uuid now s =
     (if trim (inputText s) = [] \<or> isAsking s \<or> length (documents s) = 0 then Ignored
      else
        let userMsg = \<lparr>msg_id = uuid, msg_role = User, msg_text = inputText s,
                        msg_citations = None, msg_timestamp = now\<rparr>;
            s1 = s\<lparr>chatHistory := chatHistory s @ [userMsg]\<rparr>
        in case saveChatMessage userMsg (db s1) of
             Inl err \<Rightarrow> Rejected err s1
           | Inr d \<Rightarrow>
               Querying (inputText s) (documents s)
                 (s1\<lparr>db := d, inputText := [], isAsking := True, error := None\<rparr>))"

record GeminiResponse =
  answer :: string
  citations :: "Citation list"

definition handleAsk_resume ::
    "string \<Rightarrow> int \<Rightarrow> string + GeminiResponse \<Rightarrow> AppState \<Rightarrow> AppState" where
  "handleAsk_resume uuid now outcome s =
     (case outcome of
        Inl err \<Rightarrow> s\<lparr>error := Some (messageOr err ''Failed to get an answer.''), isAsking := False\<rparr>
      | Inr result \<Rightarrow>
          let assistantMsg = \<lparr>msg_id = uuid, msg_role = Assistant, msg_text = answer result,
                               msg_citations = Some (citations result), msg_timestamp = now\<rparr>;
              s1 = s\<lparr>chatHistory := chatHistory s @ [assistantMsg]\<rparr>
          in (case saveChatMessage assistantMsg (db s1) of
                Inl err \<Rightarrow>
                  s1\<lparr>error := Some (messageOr err ''Failed to get an answer.''), isAsking := False\<rparr>
              | Inr d \<Rightarrow> s1\<lparr>db := d, isAsking := False\<rparr>))"

section \<open>Text extraction (\<open>extractTextFromPdf\<close>)\<close>

text \<open>
  The PDF library is the environment. \<open>getDocument\<close> maps the bytes of a file to
  what the loading promise does: it rejects, or it resolves to a document (the
  source also guards against a null document). A document has a page count and,
  for each page number, the text items of the page, or \<open>None\<close> where \<open>getPage\<close> or
  \<open>getTextContent\<close> throws.
\<close>

record PdfDocument =
  numPages :: nat
  pageItems :: "nat \<Rightarrow> string list option"

datatype PdfLoad = LoadRejected | LoadResolved "PdfDocument option"

definition MAX_PAGES_CONTEXT :: nat where
  "MAX_PAGES_CONTEXT = 50"

fun natToString :: "nat \<Rightarrow> string" where
  "natToString n =
     (if n < 10 then [char_of (48 + n)]
      else natToString (n div 10) @ [char_of (48 + n mod 10)])"

fun joinWith :: "string \<Rightarrow> string list \<Rightarrow> string" where
  "joinWith sep [] = []"
| "joinWith sep [x] = x"
| "joinWith sep (x # y # ys) = x @ sep @ joinWith sep (y # ys)"

definition newline :: char where
  "newline = char_of (10 :: nat)"

definition pageBlock :: "PdfDocument \<Rightarrow> nat \<Rightarrow> string" where
  "pageBlock pdf i =
     (case pageItems pdf i of
        Some items \<Rightarrow> ''[Page '' @ natToString i @ ''] '' @ joinWith '' '' items @ [newline, newline]
      | None \<Rightarrow>
          ''[Page '' @ natToString i @ ''] [Text extraction failed for this page]''
            @ [newline, newline])"

definition noReadablePages :: string where
  "noReadablePages = ''[Error: This PDF contains no readable pages.]''"

definition extractionFailed :: string where
  "extractionFailed =
     ''Failed to extract text from PDF. The file might be corrupted, protected, or too complex for browser-based parsing.''"

definition truncationNote :: string where
  "truncationNote =
     [newline, newline] @ ''[Note: Only the first '' @ natToString MAX_PAGES_CONTEXT
       @ '' pages were indexed to ensure browser stability. Please refer to the document viewer for later pages.]''"

text \<open>
  The page loop \<open>for (i = 1; i <= pagesToExtract; i++)\<close> appends one block per page.
  Releasing the document in the \<open>finally\<close> block has no effect on the result.
\<close>

definition extractTextFromPdf :: "(nat list \<Rightarrow> PdfLoad) \<Rightarrow> nat list \<Rightarrow> string + string" where
  "extractTextFromPdf getDocument bytes =
     (case getDocument bytes of
        LoadRejected \<Rightarrow> Inl extractionFailed
      | LoadResolved None \<Rightarrow> Inr noReadablePages
      | LoadResolved (Some pdf) \<Rightarrow>
          if numPages pdf = 0 then Inr noReadablePages
          else
            let pagesToExtract = min (numPages pdf) MAX_PAGES_CONTEXT;
                fullText = foldl (\<lambda>acc i. acc @ pageBlock pdf i) [] [1 ..< Suc pagesToExtract]
            in Inr (if numPages pdf > MAX_PAGES_CONTEXT then fullText @ truncationNote
                    else fullText))"

section \<open>Ingestion (\<open>processFile\<close>, \<open>handleFileUpload\<close>)\<close>

record File =
  file_name :: string
  file_type :: string
  file_size :: nat
  file_data :: "nat list"

text \<open>
  \<open>name.replace(/\s\(\d+\)(?=\.pdf|$)/gi, '')\<close> removes every copy marker: a white
  space, an opening parenthesis, one or more digits and a closing parenthesis,
  where \<open>.pdf\<close> (in any letter case) or the end of the name follows.
  \<open>copyMarker\<close> recognises a marker at the head of its argument and returns what
  follows it.
\<close>

definition copyMarker :: "string \<Rightarrow> string option" where
  "copyMarker cs =
     (case cs of
        c # p # rest \<Rightarrow>
          if isWhiteSpace c \<and> p = CHR ''('' \<and> takeWhile isDigit rest \<noteq> [] then
            (case dropWhile isDigit rest of
               q # after \<Rightarrow>
                 if q = CHR '')'' \<and> (after = [] \<or> take 4 (toLowerCase after) = ''.pdf'')
                 then Some after else None
             | [] \<Rightarrow> None)
          else None
      | _ \<Rightarrow> None)"

function cleanFileName :: "string \<Rightarrow> string" where
  "cleanFileName [] = []"
| "cleanFileName (c # cs) =
     (case copyMarker (c # cs) of
        Some after \<Rightarrow> cleanFileName after
      | None \<Rightarrow> c # cleanFileName cs)"
  by pat_completeness auto
termination
proof (relation "measure length")
  fix c cs after
  assume "copyMarker (c # cs) = Some after"
  then obtain p rest q where "cs = p # rest" "dropWhile isDigit rest = q # after"
    by (auto simp: copyMarker_def split: list.splits if_splits)
  moreover have "length (dropWhile isDigit rest) \<le> length rest"
    by (rule length_dropWhile_le)
  ultimately show "(after, c # cs) \<in> measure length" by simp
qed simp_all

definition tooLargeMessage :: "string \<Rightarrow> string" where
  "tooLargeMessage fname = ''File \"'' @ fname @ ''\" is too large (max 50MB).''"

text \<open>
  \<open>processFile\<close> returns \<open>null\<close> for a file that is not a PDF, throws for a file that
  is too large, whose text cannot be extracted or that cannot be saved, and
  otherwise returns the stored document. The identifier and the upload date are
  what \<open>crypto.randomUUID()\<close> and \<open>new Date()\<close> return for this file. Reading the
  bytes of the file (\<open>file.arrayBuffer()\<close>) is taken to succeed.
\<close>

definition processFile ::
    "(nat list \<Rightarrow> PdfLoad) \<Rightarrow> File \<times> string \<times> int \<Rightarrow> Database
       \<Rightarrow> string + (RailDocument option \<times> Database)" where
  "processFile getDocument item d =
     (case item of (file, uuid, now) \<Rightarrow>
        if file_type file \<noteq> ''application/pdf'' \<and> \<not> endsWith (toLowerCase (file_name file)) ''.pdf''
        then Inr (None, d)
        else if file_size file > 50 * 1024 * 1024 then Inl (tooLargeMessage (file_name file))
        else
          (case extractTextFromPdf getDocument (file_data file) of
             Inl err \<Rightarrow> Inl err
           | Inr txt \<Rightarrow>
               let doc = \<lparr>doc_id = uuid, doc_name = cleanFileName (file_name file),
                          doc_content = txt, doc_size = file_size file,
                          doc_uploadDate = now, doc_pdfData = file_data file\<rparr>
               in (case saveDocument doc d of
                     Inl err \<Rightarrow> Inl err
                   | Inr d' \<Rightarrow> Inr (Some doc, d'))))"

text \<open>
  The loop of \<open>handleFileUpload\<close>: \<open>newDocs\<close> collects the documents of the batch; a
  throw of \<open>processFile\<close> leaves the loop, with the database as it then is.
\<close>

fun processFiles ::
    "(nat list \<Rightarrow> PdfLoad) \<Rightarrow> (File \<times> string \<times> int) list \<Rightarrow> RailDocument list \<Rightarrow> Database
       \<Rightarrow> (string \<times> Database) + (RailDocument list \<times> Database)" where
  "processFiles getDocument [] newDocs d = Inr (newDocs, d)"
| "processFiles getDocument (item # items) newDocs d =
     (case processFile getDocument item d of
        Inl err \<Rightarrow> Inl (err, d)
      | Inr (doc, d') \<Rightarrow>
          processFiles getDocument items
            (case doc of None \<Rightarrow> newDocs | Some x \<Rightarrow> newDocs @ [x]) d')"

definition handleFileUpload ::
    "(nat list \<Rightarrow> PdfLoad) \<Rightarrow> (File \<times> string \<times> int) list \<Rightarrow> AppState \<Rightarrow> AppState" where
  "handleFileUpload getDocument files s =
     (if length files = 0 then s
      else
        let s1 = s\<lparr>isProcessingFile := True, error := None\<rparr>
        in (case processFiles getDocument files [] (db s1) of
              Inr (newDocs, d) \<Rightarrow>
                s1\<lparr>db := d, documents := documents s1 @ newDocs, isProcessingFile := False\<rparr>
            | Inl (err, d) \<Rightarrow>
                s1\<lparr>db := d, error := Some (messageOr err ''Error processing PDF''),
                   isProcessingFile := False\<rparr>))"

section \<open>The viewer overlay (\<open>ClauseModal\<close>)\<close>

text \<open>
  The state of one mounted \<open>ClauseModal\<close>: its \<open>initialPage\<close> property, its React
  state, and the two references \<open>dragStart\<close> and \<open>sizeStart\<close>. \<open>pdfDoc\<close> is the page
  count of the document held in \<open>pdfDocRef\<close>, if one is loaded. Positions and sizes
  are JavaScript numbers, modelled as reals; page numbers are integers.
\<close>

record ViewerState =
  initialPage :: int
  currentPage :: int
  totalPages :: int
  loading :: bool
  modal_error :: "string option"
  scale :: real
  pos_x :: real
  pos_y :: real
  width :: real
  height :: real
  isDragging :: bool
  isResizing :: bool
  dragStart_x :: real
  dragStart_y :: real
  sizeStart_w :: real
  sizeStart_h :: real
  pdfDoc :: "int option"

definition ClauseModal_init :: "int \<Rightarrow> ViewerState" where
  "ClauseModal_init page =
     \<lparr>initialPage = page, currentPage = max 1 page, totalPages = 0, loading = True,
      modal_error = None, scale = 1, pos_x = 0, pos_y = 0, width = 900, height = 800,
      isDragging = False, isResizing = False, dragStart_x = 0, dragStart_y = 0,
      sizeStart_w = 0, sizeStart_h = 0, pdfDoc = None\<rparr>"

text \<open>The effect on \<open>isOpen\<close>: the opening geometry, from the size of the browser window.\<close>

definition openEffect :: "real \<Rightarrow> real \<Rightarrow> ViewerState \<Rightarrow> ViewerState" where
  "openEffect innerWidth innerHeight s =
     (let w = min (innerWidth * 0.9) 1000;
          h = min (innerHeight * 0.9) 850
      in s\<lparr>width := w, height := h,
            pos_x := (innerWidth - w) / 2, pos_y := (innerHeight - h) / 2\<rparr>)"

text \<open>
  The loading effect: its clean-up drops the document of the previous run, and
  \<open>loadPdf\<close> starts by raising \<open>loading\<close> and clearing the error. The effect depends
  on \<open>scale\<close>, so a change of the zoom factor runs it again.
\<close>

definition loadEffect :: "ViewerState \<Rightarrow> ViewerState" where
  "loadEffect s = s\<lparr>pdfDoc := None, loading := True, modal_error := None\<rparr>"

definition loadPdf_resolved :: "int \<Rightarrow> ViewerState \<Rightarrow> ViewerState" where
  "loadPdf_resolved pages s =
     (let startPage = max 1 (min (initialPage s) pages)
      in s\<lparr>pdfDoc := Some pages, totalPages := pages, currentPage := startPage\<rparr>)"

definition loadPdf_failed :: "string \<Rightarrow> ViewerState \<Rightarrow> ViewerState" where
  "loadPdf_failed msg s =
     s\<lparr>modal_error := Some (''Could not load PDF document: '' @ msg), loading := False\<rparr>"

text \<open>
  \<open>renderPage\<close> first clamps the requested page against the page count of the
  loaded document. What the render then does is the environment's choice; the
  handler lowers \<open>loading\<close> when it completes, returns silently when it was
  cancelled, and reports any other failure.
\<close>

definition renderPage_pageNum :: "int \<Rightarrow> int \<Rightarrow> int" where
  "renderPage_pageNum num pages = max 1 (min num pages)"

datatype RenderOutcome = Rendered | RenderingCancelled | RenderFailed

definition renderPage :: "int \<Rightarrow> RenderOutcome \<Rightarrow> ViewerState \<Rightarrow> ViewerState" where
  "renderPage num outcome s =
     (case pdfDoc s of
        None \<Rightarrow> s
      | Some pages \<Rightarrow>
          let pageNum = renderPage_pageNum num pages
          in (case outcome of
                Rendered \<Rightarrow> s\<lparr>loading := False\<rparr>
              | RenderingCancelled \<Rightarrow> s
              | RenderFailed \<Rightarrow>
                  s\<lparr>modal_error := Some (''Failed to render page '' @ natToString (nat pageNum) @ ''.''),
                    loading := False\<rparr>))"

text \<open>
  The page buttons. A disabled button does not deliver its click, so each handler
  is guarded by the \<open>disabled\<close> attribute of its button.
\<close>

definition prevDisabled :: "ViewerState \<Rightarrow> bool" where
  "prevDisabled s = (currentPage s \<le> 1 \<or> loading s)"

definition nextDisabled :: "ViewerState \<Rightarrow> bool" where
  "nextDisabled s = (currentPage s \<ge> totalPages s \<or> loading s)"

definition clickPrev :: "ViewerState \<Rightarrow> ViewerState" where
  "clickPrev s =
     (if prevDisabled s then s else s\<lparr>currentPage := max 1 (currentPage s - 1)\<rparr>)"

definition clickNext :: "ViewerState \<Rightarrow> ViewerState" where
  "clickNext s =
     (if nextDisabled s then s else s\<lparr>currentPage := min (totalPages s) (currentPage s + 1)\<rparr>)"

text \<open>The zoom buttons; a zoom factor that really changes restarts the loading effect.\<close>

definition setScale :: "real \<Rightarrow> ViewerState \<Rightarrow> ViewerState" where
  "setScale v s = (if v = scale s then s else loadEffect (s\<lparr>scale := v\<rparr>))"

definition zoomOut :: "ViewerState \<Rightarrow> ViewerState" where
  "zoomOut s = setScale (max 0.5 (scale s - 0.25)) s"

definition zoomIn :: "ViewerState \<Rightarrow> ViewerState" where
  "zoomIn s = setScale (min 4 (scale s + 0.25)) s"

definition resetZoom :: "ViewerState \<Rightarrow> ViewerState" where
  "resetZoom s = setScale 1 s"

text \<open>
  Dragging and resizing with the mouse. \<open>handleMouseDown\<close> is given for a press on
  the drag handle (a press elsewhere on the window changes nothing);
  \<open>handleResizeStart\<close> is the press on the resize corner, which keeps the event
  from the drag handler.
\<close>

definition handleMouseDown :: "real \<Rightarrow> real \<Rightarrow> ViewerState \<Rightarrow> ViewerState" where
  "handleMouseDown clientX clientY s =
     s\<lparr>isDragging := True, dragStart_x := clientX - pos_x s, dragStart_y := clientY - pos_y s\<rparr>"

definition handleResizeStart :: "real \<Rightarrow> real \<Rightarrow> ViewerState \<Rightarrow> ViewerState" where
  "handleResizeStart clientX clientY s =
     s\<lparr>isResizing := True, dragStart_x := clientX, dragStart_y := clientY,
       sizeStart_w := width s, sizeStart_h := height s\<rparr>"

definition handleMouseMove :: "real \<Rightarrow> real \<Rightarrow> ViewerState \<Rightarrow> ViewerState" where
  "handleMouseMove clientX clientY s =
     (let s1 = (if isDragging s
                then s\<lparr>pos_x := clientX - dragStart_x s, pos_y := clientY - dragStart_y s\<rparr>
                else s)
      in if isResizing s
         then (let deltaX = clientX - dragStart_x s;
                   deltaY = clientY - dragStart_y s
               in s1\<lparr>width := max 400 (sizeStart_w s + deltaX),
                     height := max 300 (sizeStart_h s + deltaY)\<rparr>)
         else s1)"

definition handleMouseUp :: "ViewerState \<Rightarrow> ViewerState" where
  "handleMouseUp s = s\<lparr>isDragging := False, isResizing := False\<rparr>"

text \<open>
  A viewer session: the component is mounted for a citation's page, the opening
  effect runs once, and then events arrive in any order.
\<close>

datatype ViewerEvent =
    LoadStarted
  | PdfLoaded int
  | PdfLoadFailed string
  | RenderSettled RenderOutcome
  | ClickPrev
  | ClickNext
  | ZoomOut
  | ZoomIn
  | ResetZoom
  | MouseDown real real
  | ResizeStart real real
  | MouseMove real real
  | MouseUp

fun viewerStep :: "ViewerState \<Rightarrow> ViewerEvent \<Rightarrow> ViewerState" where
  "viewerStep s LoadStarted = loadEffect s"
| "viewerStep s (PdfLoaded pages) = loadPdf_resolved pages s"
| "viewerStep s (PdfLoadFailed msg) = loadPdf_failed msg s"
| "viewerStep s (RenderSettled outcome) = renderPage (currentPage s) outcome s"
| "viewerStep s ClickPrev = clickPrev s"
| "viewerStep s ClickNext = clickNext s"
| "viewerStep s ZoomOut = zoomOut s"
| "viewerStep s ZoomIn = zoomIn s"
| "viewerStep s ResetZoom = resetZoom s"
| "viewerStep s (MouseDown clientX clientY) = handleMouseDown clientX clientY s"
| "viewerStep s (ResizeStart clientX clientY) = handleResizeStart clientX clientY s"
| "viewerStep s (MouseMove clientX clientY) = handleMouseMove clientX clientY s"
| "viewerStep s MouseUp = handleMouseUp s"

definition viewerSession :: "int \<Rightarrow> real \<Rightarrow> real \<Rightarrow> ViewerEvent list \<Rightarrow> ViewerState" where
  "viewerSession page innerWidth innerHeight events =
     foldl viewerStep (openEffect innerWidth innerHeight (ClauseModal_init page)) events"

section \<open>Rendering, step by step\<close>

text \<open>
  \<open>renderPage\<close> is asynchronous: it suspends at \<open>getPage\<close> and at the promise of
  the render task, and other calls of \<open>renderPage\<close> run in between. This section
  follows each call through its steps, with the order of the steps given by a
  list of events.

  What happens in the \<open>catch\<close> block and after a completed render, for the page
  number \<open>pageNum\<close> of the call:
\<close>

definition renderPage_settled :: "int \<Rightarrow> RenderOutcome \<Rightarrow> ViewerState \<Rightarrow> ViewerState" where
  "renderPage_settled pageNum outcome s =
     (case outcome of
        Rendered \<Rightarrow> s\<lparr>loading := False\<rparr>
      | RenderingCancelled \<Rightarrow> s
      | RenderFailed \<Rightarrow>
          s\<lparr>modal_error := Some (''Failed to render page '' @ natToString (nat pageNum) @ ''.''),
            loading := False\<rparr>)"
















section \<open>Predicates used in the statements\<close>

text \<open>The size floor of the overlay window and the range of its page counter.\<close>

definition sizeFloor :: "ViewerState \<Rightarrow> bool" where
  "sizeFloor s = (400 \<le> width s \<and> 300 \<le> height s)"




text \<open>A file that \<open>processFile\<close> takes for a PDF, by its type or by its name.\<close>

definition looksLikePdf :: "File \<Rightarrow> bool" where
  "looksLikePdf file =
     (file_type file = ''application/pdf'' \<or> endsWith (toLowerCase (file_name file)) ''.pdf'')"

text \<open>A loaded PDF without pages: the null document, or a page count of zero.\<close>

definition hasNoPages :: "PdfLoad \<Rightarrow> bool" where
  "hasNoPages load =
     (case load of
        LoadRejected \<Rightarrow> False
      | LoadResolved None \<Rightarrow> True
      | LoadResolved (Some pdf) \<Rightarrow> numPages pdf = 0)"

text \<open>
  The normal forms that \<open>handleCitationClick\<close> compares: the citation's standard
  name is lower-cased, trimmed and stripped of a trailing \<open>.pdf\<close>; a document's
  name is lower-cased and stripped of a trailing \<open>.pdf\<close>. \<open>exactMatch\<close> is the test
  of the first pass, \<open>fuzzyMatch\<close> the test of the second.
\<close>

definition normalizeCitation :: "string \<Rightarrow> string" where
  "normalizeCitation standard = stripPdf (trim (toLowerCase standard))"

definition normalizeDocName :: "string \<Rightarrow> string" where
  "normalizeDocName name = stripPdf (toLowerCase name)"

definition exactMatch :: "string \<Rightarrow> RailDocument \<Rightarrow> bool" where
  "exactMatch standard d = (normalizeDocName (doc_name d) = normalizeCitation standard)"

definition fuzzyMatch :: "string \<Rightarrow> RailDocument \<Rightarrow> bool" where
  "fuzzyMatch standard d =
     (includes_str (normalizeDocName (doc_name d)) (normalizeCitation standard)
      \<or> includes_str (normalizeCitation standard) (normalizeDocName (doc_name d)))"

text \<open>
  The resolver as the specification words it: both sides get the same normal
  form (lower case, trim, strip a trailing \<open>.pdf\<close>); the first document whose
  normal form equals the citation's is returned; failing that, the candidates
  are the documents whose normal form contains the citation's or is contained in
  it, and the one with the closest original name length is returned (the first
  such in document order).
\<close>

definition spec_normalize :: "string \<Rightarrow> string" where
  "spec_normalize name = stripPdf (trim (toLowerCase name))"

definition spec_resolveCitation :: "string \<Rightarrow> RailDocument list \<Rightarrow> RailDocument option" where
  "spec_resolveCitation standard docs =
     (case find (\<lambda>d. spec_normalize (doc_name d) = spec_normalize standard) docs of
        Some d \<Rightarrow> Some d
      | None \<Rightarrow>
          (let candidates =
                 filter (\<lambda>d. includes_str (spec_normalize standard) (spec_normalize (doc_name d))
                             \<or> includes_str (spec_normalize (doc_name d)) (spec_normalize standard))
                   docs
           in if candidates = [] then None
              else Some (hd (sort_key (lengthDistance standard) candidates))))"

text \<open>Example data for the concrete instances below.\<close>

definition exampleDoc :: "string \<Rightarrow> string \<Rightarrow> RailDocument" where
  "exampleDoc ident fname =
     \<lparr>doc_id = ident, doc_name = fname, doc_content = ''[Page 1] text'', doc_size = 3,
      doc_uploadDate = 1000, doc_pdfData = [37, 80, 68]\<rparr>"

definition emptyDatabase :: Database where
  "emptyDatabase = \<lparr>docStore = [], chatStore = [], db_failure = None\<rparr>"

definition exampleState :: "RailDocument list \<Rightarrow> AppState" where
  "exampleState docs =
     \<lparr>documents = docs, chatHistory = [], inputText = ''What is the cant limit?'',
      isProcessingFile = False, isAsking = False, error = None, activeClause = None,
      db = emptyDatabase\<lparr>docStore := map (\<lambda>d. (doc_id d, d)) docs\<rparr>\<rparr>"

definition exampleFile :: "string \<Rightarrow> nat list \<Rightarrow> File" where
  "exampleFile fname bytes =
     \<lparr>file_name = fname, file_type = ''application/pdf'', file_size = length bytes,
      file_data = bytes\<rparr>"

text \<open>
  An example PDF library: the single byte \<open>0\<close> is a corrupt file, the empty file
  loads as a document without pages, and anything else is a one-page document.
\<close>

definition exampleGetDocument :: "nat list \<Rightarrow> PdfLoad" where
  "exampleGetDocument bytes =
     (if bytes = [0] then LoadRejected
      else if bytes = [] then LoadResolved (Some \<lparr>numPages = 0, pageItems = (\<lambda>i. None)\<rparr>)
      else LoadResolved (Some \<lparr>numPages = 1, pageItems = (\<lambda>i. Some [''Clause'', ''1'']) \<rparr>))"

text \<open>A sequence of calls of \<open>saveChatMessage\<close>, one per message, in order.\<close>

fun saveChatMessages :: "ChatMessage list \<Rightarrow> Database \<Rightarrow> string + Database" where
  "saveChatMessages [] d = Inr d"
| "saveChatMessages (m # ms) d =
     (case saveChatMessage m d of Inl err \<Rightarrow> Inl err | Inr d' \<Rightarrow> saveChatMessages ms d')"

definition exampleMessage :: "string \<Rightarrow> Role \<Rightarrow> string \<Rightarrow> int \<Rightarrow> ChatMessage" where
  "exampleMessage ident role body time =
     \<lparr>msg_id = ident, msg_role = role, msg_text = body, msg_citations = None,
      msg_timestamp = time\<rparr>"

section \<open>Evaluating the resolver on concrete names\<close>

text \<open>The equations that compute the resolver and its tests on given names.\<close>

lemmas resolve_eval =
  resolveCitation_def spec_resolveCitation_def spec_normalize_def lengthDistance_def
  exactMatch_def fuzzyMatch_def normalizeDocName_def normalizeCitation_def
  toLowerCase_def toLowerCase_char_def trim_def isWhiteSpace_def stripPdf_def endsWith_def
  includes_str_def sublist_code prefix_code exampleDoc_def Let_def

section \<open>The size floor of the overlay\<close>

lemma viewerStep_sizeFloor:
  "sizeFloor s \<Longrightarrow> sizeFloor (viewerStep s e)"
  by (cases e)
     (auto simp: sizeFloor_def loadEffect_def loadPdf_resolved_def loadPdf_failed_def
        renderPage_def clickPrev_def clickNext_def zoomOut_def zoomIn_def resetZoom_def
        setScale_def handleMouseDown_def handleResizeStart_def handleMouseMove_def
        handleMouseUp_def Let_def split: option.splits RenderOutcome.splits)

lemma foldl_viewerStep_sizeFloor:
  "sizeFloor s \<Longrightarrow> sizeFloor (foldl viewerStep s es)"
  by (induction es arbitrary: s) (simp_all add: viewerStep_sizeFloor)

text \<open>
  C6, as stated, fails at first open: the opening effect sets the window to 90% of
  the browser window without applying the floor. In a browser window of 375 by
  667 pixels the overlay opens 337.5 pixels wide.
\<close>

theorem first_open_below_floor:
  "\<not> sizeFloor (viewerSession 1 375 667 [])"
  by (simp add: sizeFloor_def viewerSession_def openEffect_def ClauseModal_init_def)

text \<open>
  C6, amended. Every resize operation (a mouse move while resizing) yields a
  width of at least 400 and a height of at least 300, whatever the pointer
  position and the state before; every event of a session keeps the floor once it
  holds; and a session opened in a browser window with \<open>innerWidth * 0.9 \<ge> 400\<close> and
  \<open>innerHeight * 0.9 \<ge> 300\<close> satisfies the floor at first open and after any
  sequence of events.
\<close>

theorem resize_keeps_size_floor:
  "(isResizing s \<longrightarrow> sizeFloor (handleMouseMove clientX clientY s))
   \<and> (sizeFloor s \<longrightarrow> sizeFloor (viewerStep s e))
   \<and> (400 \<le> innerWidth * 0.9 \<and> 300 \<le> innerHeight * 0.9 \<longrightarrow>
        sizeFloor (viewerSession page innerWidth innerHeight events))"
proof (intro conjI impI)
  assume "isResizing s"
  then show "sizeFloor (handleMouseMove clientX clientY s)"
    by (simp add: sizeFloor_def handleMouseMove_def Let_def)
next
  assume "sizeFloor s"
  then show "sizeFloor (viewerStep s e)" by (rule viewerStep_sizeFloor)
next
  assume "400 \<le> innerWidth * 0.9 \<and> 300 \<le> innerHeight * 0.9"
  then have "sizeFloor (openEffect innerWidth innerHeight (ClauseModal_init page))"
    by (simp add: sizeFloor_def openEffect_def Let_def)
  then show "sizeFloor (viewerSession page innerWidth innerHeight events)"
    unfolding viewerSession_def by (rule foldl_viewerStep_sizeFloor)
qed

theorem resize_keeps_size_floor_witness:
  "isResizing (handleResizeStart 700 500 (ClauseModal_init 1))
   \<and> sizeFloor (handleMouseMove (-5000) (-5000) (handleResizeStart 700 500 (ClauseModal_init 1)))
   \<and> sizeFloor (handleResizeStart 700 500 (ClauseModal_init 1))
   \<and> sizeFloor (viewerStep (handleResizeStart 700 500 (ClauseModal_init 1)) ZoomIn)
   \<and> (400 :: real) \<le> 1280 * 0.9 \<and> (300 :: real) \<le> 800 * 0.9
   \<and> sizeFloor (viewerSession 1 1280 800 [ResizeStart 700 500, MouseMove (-5000) (-5000)])"
  using resize_keeps_size_floor
    [where s = "handleResizeStart 700 500 (ClauseModal_init 1)"
       and clientX = "-5000" and clientY = "-5000" and e = ZoomIn
       and innerWidth = 1280 and innerHeight = 800 and page = 1
       and events = "[ResizeStart 700 500, MouseMove (-5000) (-5000)]"]
  by (simp add: sizeFloor_def handleResizeStart_def ClauseModal_init_def)

section \<open>Page navigation\<close>






section \<open>Uploading a PDF without pages\<close>

lemma store_put_member: "(k, v) \<in> set (store_put k v st)"
  by (induction st) auto

lemma extract_no_pages:
  "hasNoPages (getDocument bytes) \<Longrightarrow> extractTextFromPdf getDocument bytes = Inr noReadablePages"
  by (auto simp: hasNoPages_def extractTextFromPdf_def split: PdfLoad.splits option.splits)

lemma processFile_no_pages:
  assumes "hasNoPages (getDocument (file_data pdfFile))" "looksLikePdf pdfFile"
    "file_size pdfFile \<le> 50 * 1024 * 1024" "db_failure d = None"
  shows "processFile getDocument (pdfFile, uuid, now) d =
     Inr (Some \<lparr>doc_id = uuid, doc_name = cleanFileName (file_name pdfFile),
                 doc_content = noReadablePages, doc_size = file_size pdfFile,
                 doc_uploadDate = now, doc_pdfData = file_data pdfFile\<rparr>,
          d\<lparr>docStore := store_put uuid
               \<lparr>doc_id = uuid, doc_name = cleanFileName (file_name pdfFile),
                 doc_content = noReadablePages, doc_size = file_size pdfFile,
                 doc_uploadDate = now, doc_pdfData = file_data pdfFile\<rparr> (docStore d)\<rparr>)"
  using assms
  by (simp add: processFile_def looksLikePdf_def extract_no_pages saveDocument_def Let_def)

text \<open>
  C8. For a PDF that loads without pages, \<open>extractTextFromPdf\<close> returns exactly
  the marker string. When such a file is uploaded (it is taken for a PDF, is
  within the size limit, and the store accepts the write), the document with the
  marker as its content is appended to the library and put into the document
  store, and no error is shown.
\<close>

theorem zero_page_pdf_is_stored:
  "(hasNoPages (getDocument (file_data pdfFile)) \<longrightarrow>
      extractTextFromPdf getDocument (file_data pdfFile)
        = Inr ''[Error: This PDF contains no readable pages.]'')
   \<and> (hasNoPages (getDocument (file_data pdfFile)) \<and> looksLikePdf pdfFile
        \<and> file_size pdfFile \<le> 50 * 1024 * 1024 \<and> db_failure (db s) = None \<longrightarrow>
       (let doc = \<lparr>doc_id = uuid, doc_name = cleanFileName (file_name pdfFile),
                    doc_content = ''[Error: This PDF contains no readable pages.]'',
                    doc_size = file_size pdfFile, doc_uploadDate = now,
                    doc_pdfData = file_data pdfFile\<rparr>;
            s' = handleFileUpload getDocument [(pdfFile, uuid, now)] s
        in documents s' = documents s @ [doc]
           \<and> (uuid, doc) \<in> set (docStore (db s'))
           \<and> error s' = None))"
proof (intro conjI impI)
  assume "hasNoPages (getDocument (file_data pdfFile))"
  then show "extractTextFromPdf getDocument (file_data pdfFile)
        = Inr ''[Error: This PDF contains no readable pages.]''"
    by (simp add: extract_no_pages noReadablePages_def)
next
  assume a: "hasNoPages (getDocument (file_data pdfFile)) \<and> looksLikePdf pdfFile
        \<and> file_size pdfFile \<le> 50 * 1024 * 1024 \<and> db_failure (db s) = None"
  then have "processFile getDocument (pdfFile, uuid, now) (db s) =
     Inr (Some \<lparr>doc_id = uuid, doc_name = cleanFileName (file_name pdfFile),
                 doc_content = noReadablePages, doc_size = file_size pdfFile,
                 doc_uploadDate = now, doc_pdfData = file_data pdfFile\<rparr>,
          (db s)\<lparr>docStore := store_put uuid
               \<lparr>doc_id = uuid, doc_name = cleanFileName (file_name pdfFile),
                 doc_content = noReadablePages, doc_size = file_size pdfFile,
                 doc_uploadDate = now, doc_pdfData = file_data pdfFile\<rparr> (docStore (db s))\<rparr>)"
    by (simp add: processFile_no_pages)
  then show "(let doc = \<lparr>doc_id = uuid, doc_name = cleanFileName (file_name pdfFile),
                    doc_content = ''[Error: This PDF contains no readable pages.]'',
                    doc_size = file_size pdfFile, doc_uploadDate = now,
                    doc_pdfData = file_data pdfFile\<rparr>;
            s' = handleFileUpload getDocument [(pdfFile, uuid, now)] s
        in documents s' = documents s @ [doc]
           \<and> (uuid, doc) \<in> set (docStore (db s'))
           \<and> error s' = None)"
    by (simp add: handleFileUpload_def Let_def store_put_member noReadablePages_def)
qed

theorem zero_page_pdf_is_stored_witness:
  "hasNoPages (exampleGetDocument [])
   \<and> extractTextFromPdf exampleGetDocument [] = Inr ''[Error: This PDF contains no readable pages.]''
   \<and> looksLikePdf (exampleFile ''Blank (2).pdf'' [])
   \<and> map doc_content (documents (handleFileUpload exampleGetDocument
         [(exampleFile ''Blank (2).pdf'' [], ''id-1'', 42)] (exampleState [])))
       = [''[Error: This PDF contains no readable pages.]'']
   \<and> map fst (docStore (db (handleFileUpload exampleGetDocument
         [(exampleFile ''Blank (2).pdf'' [], ''id-1'', 42)] (exampleState [])))) = [''id-1'']"
  using zero_page_pdf_is_stored
    [where getDocument = exampleGetDocument and pdfFile = "exampleFile ''Blank (2).pdf'' []"
       and s = "exampleState []" and uuid = "''id-1''" and now = 42]
  by (simp add: hasNoPages_def exampleGetDocument_def exampleFile_def exampleState_def
      emptyDatabase_def looksLikePdf_def Let_def handleFileUpload_def processFile_def
      extractTextFromPdf_def noReadablePages_def saveDocument_def)

section \<open>The page a citation opens\<close>




section \<open>Citation resolution\<close>

lemma isWhiteSpace_toLowerCase_char:
  "isWhiteSpace (toLowerCase_char c) = isWhiteSpace c"
  by (auto simp: isWhiteSpace_def toLowerCase_char_def Let_def)

lemma dropWhile_toLowerCase:
  "dropWhile isWhiteSpace (map toLowerCase_char s) = map toLowerCase_char (dropWhile isWhiteSpace s)"
  by (induction s) (simp_all add: isWhiteSpace_toLowerCase_char)

lemma trim_toLowerCase: "trim (toLowerCase s) = toLowerCase (trim s)"
  by (simp add: trim_def toLowerCase_def dropWhile_toLowerCase rev_map)

lemma spec_normalize_trimmed:
  "trim name = name \<Longrightarrow> spec_normalize name = normalizeDocName name"
  by (simp add: spec_normalize_def normalizeDocName_def trim_toLowerCase)

lemma hd_sort_key_least:
  assumes "xs \<noteq> []"
  shows "hd (sort_key f xs) \<in> set xs \<and> (\<forall>x\<in>set xs. f (hd (sort_key f xs)) \<le> f x)"
proof -
  obtain y ys where ys: "sort_key f xs = y # ys"
    using assms by (cases "sort_key f xs") (auto dest: arg_cong[where f = length])
  have "sorted (map f (sort_key f xs))" by (rule sorted_sort_key)
  then have "\<forall>z\<in>set ys. f y \<le> f z" by (simp add: ys)
  moreover have s: "set xs = insert y (set ys)"
    using set_sort[of f xs] by (simp add: ys)
  ultimately show ?thesis by (auto simp: ys)
qed

lemma exact_test:
  "(toLowerCase n = trim (toLowerCase standard)
      \<or> stripPdf (toLowerCase n) = stripPdf (trim (toLowerCase standard)))
   = (normalizeDocName n = normalizeCitation standard)"
  by (auto simp: normalizeDocName_def normalizeCitation_def)

lemma resolveCitation_alt:
  "resolveCitation standard docs =
     (case find (exactMatch standard) docs of
        Some doc \<Rightarrow> Some doc
      | None \<Rightarrow>
          if filter (fuzzyMatch standard) docs = [] then None
          else Some (hd (sort_key (lengthDistance standard) (filter (fuzzyMatch standard) docs))))"
proof -
  have e: "(\<lambda>d. let docName = toLowerCase (doc_name d); docNameNoExt = stripPdf docName
              in docName = trim (toLowerCase standard)
                 \<or> docNameNoExt = stripPdf (trim (toLowerCase standard)))
            = exactMatch standard"
    by (rule ext) (simp add: Let_def exact_test exactMatch_def)
  have f: "(\<lambda>d. let docNameNoExt = stripPdf (toLowerCase (doc_name d))
              in includes_str docNameNoExt (stripPdf (trim (toLowerCase standard)))
                 \<or> includes_str (stripPdf (trim (toLowerCase standard))) docNameNoExt)
            = fuzzyMatch standard"
    by (rule ext) (simp add: Let_def fuzzyMatch_def normalizeDocName_def normalizeCitation_def)
  show ?thesis
    unfolding resolveCitation_def Let_def e[unfolded Let_def] f[unfolded Let_def]
    by (simp split: option.splits)
qed

lemma spec_resolveCitation_trimmed:
  assumes "\<forall>d\<in>set docs. trim (doc_name d) = doc_name d"
  shows "resolveCitation standard docs = spec_resolveCitation standard docs"
proof -
  have n: "\<And>d. d \<in> set docs \<Longrightarrow> spec_normalize (doc_name d) = normalizeDocName (doc_name d)"
    using assms by (simp add: spec_normalize_trimmed)
  have c: "spec_normalize standard = normalizeCitation standard"
    by (simp add: spec_normalize_def normalizeCitation_def)
  have e: "find (\<lambda>d. spec_normalize (doc_name d) = spec_normalize standard) docs
             = find (exactMatch standard) docs"
    by (rule find_cong) (simp_all add: n c exactMatch_def)
  have f: "filter (\<lambda>d. includes_str (spec_normalize standard) (spec_normalize (doc_name d))
                      \<or> includes_str (spec_normalize (doc_name d)) (spec_normalize standard)) docs
             = filter (fuzzyMatch standard) docs"
    by (rule filter_cong) (auto simp: n c fuzzyMatch_def)
  show ?thesis
    by (simp add: resolveCitation_alt spec_resolveCitation_def e f Let_def split: option.splits)
qed

text \<open>
  C1, as stated, fails where a document name carries white space at its ends:
  the source trims the citation only. The library below holds
  \<open>RT-CE-S-104A.pdf\<close> and a document whose file name starts with a space,
  \<open> RT-CE-S-104.pdf\<close>. For the citation \<open>RT-CE-S-104.pdf\<close> the second document is
  an exact match after normalisation of both sides, and the resolver of the
  specification returns it; the source finds no exact match and returns the
  first document from the fuzzy pass.
\<close>

theorem untrimmed_document_name_misses_exact_match:
  "spec_normalize (doc_name (exampleDoc ''d1'' '' RT-CE-S-104.pdf'')) = spec_normalize ''RT-CE-S-104.pdf''
   \<and> spec_resolveCitation ''RT-CE-S-104.pdf''
        [exampleDoc ''d2'' ''RT-CE-S-104A.pdf'', exampleDoc ''d1'' '' RT-CE-S-104.pdf'']
       = Some (exampleDoc ''d1'' '' RT-CE-S-104.pdf'')
   \<and> resolveCitation ''RT-CE-S-104.pdf''
        [exampleDoc ''d2'' ''RT-CE-S-104A.pdf'', exampleDoc ''d1'' '' RT-CE-S-104.pdf'']
       = Some (exampleDoc ''d2'' ''RT-CE-S-104A.pdf'')"
  by (simp add: resolve_eval)

text \<open>
  C1, amended. The citation name is normalised by lower case, trim and stripping
  a trailing \<open>.pdf\<close>; a document name by lower case and stripping a trailing
  \<open>.pdf\<close>, without trimming. With these normal forms the two passes are as
  claimed: the first document whose normal form equals the citation's is
  returned, before any fuzzy candidate is looked at; without an exact match the
  result is a candidate of the substring test whose original name length is
  closest to the length of the original citation string; and not-found is
  returned exactly when no document passes either test. For a library whose
  document names have no white space at their ends this is the resolver of the
  specification.
\<close>

theorem resolveCitation_two_pass:
  "(\<forall>d. find (exactMatch standard) docs = Some d \<longrightarrow>
        resolveCitation standard docs = Some d)
   \<and> ((\<exists>d\<in>set docs. exactMatch standard d) \<longrightarrow>
        (\<exists>d\<in>set docs. exactMatch standard d \<and> resolveCitation standard docs = Some d))
   \<and> ((\<forall>d\<in>set docs. \<not> exactMatch standard d) \<and>
        (\<exists>d\<in>set docs. fuzzyMatch standard d) \<longrightarrow>
        (\<exists>d\<in>set docs. resolveCitation standard docs = Some d \<and> fuzzyMatch standard d
           \<and> (\<forall>d'\<in>set docs. fuzzyMatch standard d' \<longrightarrow>
                 lengthDistance standard d \<le> lengthDistance standard d')))
   \<and> ((resolveCitation standard docs = None)
        = (\<forall>d\<in>set docs. \<not> exactMatch standard d \<and> \<not> fuzzyMatch standard d))
   \<and> ((\<forall>d\<in>set docs. trim (doc_name d) = doc_name d) \<longrightarrow>
        resolveCitation standard docs = spec_resolveCitation standard docs)"
proof (intro conjI allI impI)
  fix d assume "find (exactMatch standard) docs = Some d"
  then show "resolveCitation standard docs = Some d"
    by (simp add: resolveCitation_alt)
next
  assume "\<exists>d\<in>set docs. exactMatch standard d"
  then obtain d where d: "find (exactMatch standard) docs = Some d"
    by (cases "find (exactMatch standard) docs") (auto simp: find_None_iff)
  then have "d \<in> set docs" "exactMatch standard d"
    by (auto simp: find_Some_iff)
  with d show "\<exists>d\<in>set docs. exactMatch standard d \<and> resolveCitation standard docs = Some d"
    by (auto simp: resolveCitation_alt)
next
  let ?c = "filter (fuzzyMatch standard) docs"
  assume a: "(\<forall>d\<in>set docs. \<not> exactMatch standard d) \<and> (\<exists>d\<in>set docs. fuzzyMatch standard d)"
  then have n: "find (exactMatch standard) docs = None"
    by (simp add: find_None_iff)
  from a have ne: "?c \<noteq> []" by (auto simp: filter_empty_conv)
  from hd_sort_key_least[OF ne, of "lengthDistance standard"]
  have h: "hd (sort_key (lengthDistance standard) ?c) \<in> set ?c"
    and m: "\<forall>x\<in>set ?c. lengthDistance standard (hd (sort_key (lengthDistance standard) ?c))
               \<le> lengthDistance standard x"
    by blast+
  have "resolveCitation standard docs = Some (hd (sort_key (lengthDistance standard) ?c))"
    using n ne by (simp add: resolveCitation_alt)
  with h m show "\<exists>d\<in>set docs. resolveCitation standard docs = Some d \<and> fuzzyMatch standard d
           \<and> (\<forall>d'\<in>set docs. fuzzyMatch standard d' \<longrightarrow>
                 lengthDistance standard d \<le> lengthDistance standard d')"
    by auto
next
  show "(resolveCitation standard docs = None)
        = (\<forall>d\<in>set docs. \<not> exactMatch standard d \<and> \<not> fuzzyMatch standard d)"
  proof (cases "find (exactMatch standard) docs")
    case None
    then have ne: "\<forall>d\<in>set docs. \<not> exactMatch standard d"
      by (simp add: find_None_iff)
    have "resolveCitation standard docs =
        (if filter (fuzzyMatch standard) docs = [] then None
         else Some (hd (sort_key (lengthDistance standard) (filter (fuzzyMatch standard) docs))))"
      using None by (simp add: resolveCitation_alt)
    then show ?thesis
      using ne by (auto simp: filter_empty_conv)
  next
    case (Some d)
    then have "d \<in> set docs" "exactMatch standard d"
      by (auto simp: find_Some_iff)
    with Some show ?thesis
      by (auto simp: resolveCitation_alt)
  qed
next
  assume "\<forall>d\<in>set docs. trim (doc_name d) = doc_name d"
  then show "resolveCitation standard docs = spec_resolveCitation standard docs"
    by (rule spec_resolveCitation_trimmed)
qed

theorem resolveCitation_two_pass_witness:
  "resolveCitation ''RT/CE/S/104''
       [exampleDoc ''d1'' ''RT CE S 104 (1).pdf'', exampleDoc ''d2'' ''RT/CE/S/104.pdf'']
     = Some (exampleDoc ''d2'' ''RT/CE/S/104.pdf'')
   \<and> (\<exists>d\<in>set [exampleDoc ''d3'' ''NR-L2-TRK-001 Track Design Handbook.pdf'',
                exampleDoc ''d4'' ''NR-L2-TRK-001 Issue 2.pdf''].
         resolveCitation ''NR-L2-TRK-001''
           [exampleDoc ''d3'' ''NR-L2-TRK-001 Track Design Handbook.pdf'',
            exampleDoc ''d4'' ''NR-L2-TRK-001 Issue 2.pdf''] = Some d
         \<and> fuzzyMatch ''NR-L2-TRK-001'' d
         \<and> lengthDistance ''NR-L2-TRK-001'' d
             \<le> lengthDistance ''NR-L2-TRK-001'' (exampleDoc ''d3'' ''NR-L2-TRK-001 Track Design Handbook.pdf''))
   \<and> resolveCitation ''GI/RT7016''
       [exampleDoc ''d1'' ''RT CE S 104 (1).pdf'', exampleDoc ''d2'' ''RT/CE/S/104.pdf''] = None
   \<and> resolveCitation ''RT/CE/S/104''
       [exampleDoc ''d1'' ''RT CE S 104 (1).pdf'', exampleDoc ''d2'' ''RT/CE/S/104.pdf'']
     = spec_resolveCitation ''RT/CE/S/104''
       [exampleDoc ''d1'' ''RT CE S 104 (1).pdf'', exampleDoc ''d2'' ''RT/CE/S/104.pdf'']"
proof -
  let ?d1 = "exampleDoc ''d1'' ''RT CE S 104 (1).pdf''"
  let ?d2 = "exampleDoc ''d2'' ''RT/CE/S/104.pdf''"
  let ?d3 = "exampleDoc ''d3'' ''NR-L2-TRK-001 Track Design Handbook.pdf''"
  let ?d4 = "exampleDoc ''d4'' ''NR-L2-TRK-001 Issue 2.pdf''"
  have e: "find (exactMatch ''RT/CE/S/104'') [?d1, ?d2] = Some ?d2"
    by (simp add: resolve_eval)
  have t: "\<forall>d\<in>set [?d1, ?d2]. trim (doc_name d) = doc_name d"
    by (simp add: resolve_eval)
  have n: "\<forall>d\<in>set [?d3, ?d4]. \<not> exactMatch ''NR-L2-TRK-001'' d"
    by (simp add: resolve_eval)
  have f: "\<exists>d\<in>set [?d3, ?d4]. fuzzyMatch ''NR-L2-TRK-001'' d"
    by (simp add: resolve_eval)
  have z: "\<forall>d\<in>set [?d1, ?d2]. \<not> exactMatch ''GI/RT7016'' d \<and> \<not> fuzzyMatch ''GI/RT7016'' d"
    by (simp add: resolve_eval)
  have f3: "fuzzyMatch ''NR-L2-TRK-001'' ?d3"
    by (simp add: resolve_eval)
  note a = resolveCitation_two_pass [where standard = "''RT/CE/S/104''" and docs = "[?d1, ?d2]"]
  note b = resolveCitation_two_pass [where standard = "''NR-L2-TRK-001''" and docs = "[?d3, ?d4]"]
  note c = resolveCitation_two_pass [where standard = "''GI/RT7016''" and docs = "[?d1, ?d2]"]
  have 1: "resolveCitation ''RT/CE/S/104'' [?d1, ?d2] = Some ?d2"
    using a e by blast
  have 2: "\<exists>d\<in>set [?d3, ?d4]. resolveCitation ''NR-L2-TRK-001'' [?d3, ?d4] = Some d
         \<and> fuzzyMatch ''NR-L2-TRK-001'' d
         \<and> lengthDistance ''NR-L2-TRK-001'' d \<le> lengthDistance ''NR-L2-TRK-001'' ?d3"
    using b n f f3 by (metis list.set_intros(1))
  have 3: "resolveCitation ''GI/RT7016'' [?d1, ?d2] = None"
    using c z by blast
  have 4: "resolveCitation ''RT/CE/S/104'' [?d1, ?d2] = spec_resolveCitation ''RT/CE/S/104'' [?d1, ?d2]"
    using a t by blast
  from 1 2 3 4 show ?thesis by blast
qed

section \<open>Saving and reloading the chat history\<close>

lemma keys_store_put:
  "(k' \<in> fst ` set (store_put k v st)) = (k' = k \<or> k' \<in> fst ` set st)"
  by (induction st) force+

lemma store_put_key:
  "(k', v') \<in> set (store_put k v st) \<Longrightarrow> k' = k \<or> k' \<in> fst ` set st"
  by (metis keys_store_put fst_conv image_eqI)

lemma mset_store_put:
  "k \<notin> fst ` set st \<Longrightarrow>
     mset (store_getAll (store_put k v st)) = add_mset v (mset (store_getAll st))"
  by (induction st) (auto simp: store_getAll_def)

lemma saveChatMessages_fresh:
  assumes "db_failure d = None" "distinct (map msg_id ms)"
    "\<forall>m\<in>set ms. msg_id m \<notin> fst ` set (chatStore d)"
  shows "\<exists>d'. saveChatMessages ms d = Inr d' \<and> db_failure d' = None
           \<and> docStore d' = docStore d
           \<and> mset (store_getAll (chatStore d')) = mset (store_getAll (chatStore d)) + mset ms"
  using assms
proof (induction ms arbitrary: d)
  case Nil
  then show ?case by simp
next
  case (Cons m ms)
  let ?d1 = "d\<lparr>chatStore := store_put (msg_id m) m (chatStore d)\<rparr>"
  have s: "saveChatMessage m d = Inr ?d1"
    using Cons.prems(1) by (simp add: saveChatMessage_def)
  have fresh: "msg_id m \<notin> fst ` set (chatStore d)"
    using Cons.prems(3) by auto
  have "\<forall>x\<in>set ms. msg_id x \<notin> fst ` set (chatStore ?d1)"
  proof
    fix x assume x: "x \<in> set ms"
    have "msg_id m \<notin> msg_id ` set ms" using Cons.prems(2) by simp
    with x have "msg_id x \<noteq> msg_id m" by (metis imageI)
    moreover have "msg_id x \<notin> fst ` set (chatStore d)" using Cons.prems(3) x by simp
    ultimately show "msg_id x \<notin> fst ` set (chatStore ?d1)"
      by (simp add: keys_store_put)
  qed
  with Cons.IH[of ?d1] Cons.prems(1,2)
  obtain d' where d': "saveChatMessages ms ?d1 = Inr d'" "db_failure d' = None"
    "docStore d' = docStore ?d1"
    "mset (store_getAll (chatStore d')) = mset (store_getAll (chatStore ?d1)) + mset ms"
    by auto
  show ?case
    using d' s fresh by (simp add: mset_store_put)
qed

lemma sorted_by_key_unique:
  fixes f :: "'a \<Rightarrow> int"
  assumes "mset h = mset ms" "sorted (map f h)" "sorted_wrt (<) (map f ms)"
  shows "h = ms"
proof -
  have sd: "sorted (map f ms)" "distinct (map f ms)"
    using assms(3) by (simp_all add: strict_sorted_iff)
  have m: "mset (map f h) = mset (map f ms)"
    using assms(1) by simp
  then have "distinct (map f h)"
    using sd(2) mset_eq_imp_distinct_iff by blast
  moreover have "set (map f h) = set (map f ms)"
    using m by (rule mset_eq_setD)
  ultimately have e: "map f h = map f ms"
    using assms(2) sd by (intro sorted_distinct_set_unique)
  have "set h = set ms" using assms(1) by (rule mset_eq_setD)
  moreover have "inj_on f (set ms)" using sd(2) by (simp add: distinct_map)
  ultimately have "inj_on f (set h \<union> set ms)" by simp
  then show ?thesis using e by (simp add: inj_on_map_eq_map)
qed

text \<open>
  C5. The store is working and \<open>old\<close> is the transcript loaded from it. Messages
  with new, distinct identifiers are then saved one after the other. Every save
  succeeds, and reloading the history returns the messages of \<open>old\<close> and the
  appended ones (as a multiset: none lost, none added, none changed) in ascending
  order of their time stamps. When the time stamps increase strictly along the
  transcript \<open>old @ ms\<close>, the reloaded transcript is that list itself.
\<close>

theorem chat_history_round_trip:
  assumes "getChatHistory d = Inr old"
    and "distinct (map msg_id ms)"
    and "\<forall>m\<in>set ms. msg_id m \<notin> fst ` set (chatStore d)"
  shows "\<exists>d' h. saveChatMessages ms d = Inr d' \<and> getChatHistory d' = Inr h
           \<and> mset h = mset (old @ ms)
           \<and> sorted (map msg_timestamp h)
           \<and> (sorted_wrt (<) (map msg_timestamp (old @ ms)) \<longrightarrow> h = old @ ms)"
proof -
  have ok: "db_failure d = None"
    using assms(1) by (auto simp: getChatHistory_def split: option.splits)
  then have old: "old = sort_key msg_timestamp (store_getAll (chatStore d))"
    using assms(1) by (simp add: getChatHistory_def)
  obtain d' where d': "saveChatMessages ms d = Inr d'" "db_failure d' = None"
    "mset (store_getAll (chatStore d')) = mset (store_getAll (chatStore d)) + mset ms"
    using saveChatMessages_fresh[of d ms] ok assms(2,3) by auto
  let ?h = "sort_key msg_timestamp (store_getAll (chatStore d'))"
  have g: "getChatHistory d' = Inr ?h"
    using d'(2) by (simp add: getChatHistory_def)
  have m: "mset ?h = mset (old @ ms)"
    using d'(3) by (simp add: old)
  have s: "sorted (map msg_timestamp ?h)" by (rule sorted_sort_key)
  have "?h = old @ ms" if "sorted_wrt (<) (map msg_timestamp (old @ ms))"
    using m s that by (rule sorted_by_key_unique)
  with d'(1) g m s show ?thesis by blast
qed

theorem chat_history_round_trip_witness:
  "getChatHistory emptyDatabase = Inr []
   \<and> distinct (map msg_id [exampleMessage ''b7'' User ''Q'' 10, exampleMessage ''a3'' Assistant ''A'' 20])
   \<and> (\<exists>d'. saveChatMessages
               [exampleMessage ''b7'' User ''Q'' 10, exampleMessage ''a3'' Assistant ''A'' 20]
               emptyDatabase = Inr d'
          \<and> store_getAll (chatStore d')
               = [exampleMessage ''a3'' Assistant ''A'' 20, exampleMessage ''b7'' User ''Q'' 10]
          \<and> getChatHistory d'
               = Inr [exampleMessage ''b7'' User ''Q'' 10, exampleMessage ''a3'' Assistant ''A'' 20])"
proof -
  let ?ms = "[exampleMessage ''b7'' User ''Q'' 10, exampleMessage ''a3'' Assistant ''A'' 20]"
  have a: "getChatHistory emptyDatabase = Inr []"
    by (simp add: getChatHistory_def emptyDatabase_def store_getAll_def)
  have b: "distinct (map msg_id ?ms)" by (simp add: exampleMessage_def)
  have f: "\<forall>m\<in>set ?ms. msg_id m \<notin> fst ` set (chatStore emptyDatabase)"
    by (simp add: emptyDatabase_def)
  have c: "sorted_wrt (<) (map msg_timestamp ([] @ ?ms))" by (simp add: exampleMessage_def)
  have k: "store_getAll (chatStore (emptyDatabase
             \<lparr>chatStore := store_put ''a3'' (exampleMessage ''a3'' Assistant ''A'' 20)
                 (store_put ''b7'' (exampleMessage ''b7'' User ''Q'' 10) [])\<rparr>))
           = [exampleMessage ''a3'' Assistant ''A'' 20, exampleMessage ''b7'' User ''Q'' 10]"
    by (simp add: store_getAll_def)
  have e: "saveChatMessages ?ms emptyDatabase = Inr (emptyDatabase
             \<lparr>chatStore := store_put ''a3'' (exampleMessage ''a3'' Assistant ''A'' 20)
                 (store_put ''b7'' (exampleMessage ''b7'' User ''Q'' 10) [])\<rparr>)"
    by (simp add: saveChatMessage_def emptyDatabase_def exampleMessage_def)
  from chat_history_round_trip[OF a b f] c e k a b show ?thesis
    by auto
qed

section \<open>Asking a question whose remote query fails\<close>

lemma handleAsk_begin_Querying:
  assumes "handleAsk_begin uuid now s = Querying q docs s1"
  shows "q = inputText s \<and> docs = documents s
     \<and> db_failure (db s) = None
     \<and> s1 = s\<lparr>chatHistory := chatHistory s @
                   [\<lparr>msg_id = uuid, msg_role = User, msg_text = inputText s,
                     msg_citations = None, msg_timestamp = now\<rparr>],
               db := (db s)\<lparr>chatStore := store_put uuid
                   \<lparr>msg_id = uuid, msg_role = User, msg_text = inputText s,
                     msg_citations = None, msg_timestamp = now\<rparr> (chatStore (db s))\<rparr>,
               inputText := [], isAsking := True, error := None\<rparr>"
  using assms
  by (auto simp: handleAsk_begin_def saveChatMessage_def Let_def
      split: if_splits option.splits sum.splits)

text \<open>
  C4. Whenever \<open>handleAsk\<close> reaches the remote query, it calls it with the
  question and the documents of the moment, and the user message is by then
  appended to the transcript and written to the store (a reload returns it). If
  the query fails, the continuation leaves transcript and store as they are, so
  the user message remains and no assistant message is appended or persisted; it
  shows the failure reason and lowers \<open>isAsking\<close>. The continuation ends there: it
  issues no second query. A call with a non-blank input, no question pending, at
  least one document and a working store does reach the query.
\<close>

theorem ask_failure_keeps_user_message:
  "(\<forall>q docs s1. handleAsk_begin uuid now s = Querying q docs s1 \<longrightarrow>
       (let userMsg = \<lparr>msg_id = uuid, msg_role = User, msg_text = inputText s,
                       msg_citations = None, msg_timestamp = now\<rparr>;
            s2 = handleAsk_resume uuid' now' (Inl reason) s1
        in q = inputText s \<and> docs = documents s
           \<and> chatHistory s1 = chatHistory s @ [userMsg]
           \<and> (uuid, userMsg) \<in> set (chatStore (db s1))
           \<and> (\<exists>h. getChatHistory (db s1) = Inr h \<and> userMsg \<in> set h)
           \<and> chatHistory s2 = chatHistory s @ [userMsg]
           \<and> db s2 = db s1
           \<and> error s2 = Some (messageOr reason ''Failed to get an answer.'')
           \<and> isAsking s2 = False))
   \<and> (trim (inputText s) \<noteq> [] \<and> \<not> isAsking s \<and> documents s \<noteq> []
        \<and> db_failure (db s) = None \<longrightarrow>
        (\<exists>s1. handleAsk_begin uuid now s = Querying (inputText s) (documents s) s1))
   \<and> handleAsk_resume uuid' now' (Inl reason) t
        = t\<lparr>error := Some (messageOr reason ''Failed to get an answer.''), isAsking := False\<rparr>"
proof (intro conjI allI impI)
  fix q docs s1
  assume a: "handleAsk_begin uuid now s = Querying q docs s1"
  let ?m = "\<lparr>msg_id = uuid, msg_role = User, msg_text = inputText s,
              msg_citations = None, msg_timestamp = now\<rparr>"
  from handleAsk_begin_Querying[OF a]
  have q: "q = inputText s" "docs = documents s" and ok: "db_failure (db s) = None"
    and s1: "s1 = s\<lparr>chatHistory := chatHistory s @ [?m],
               db := (db s)\<lparr>chatStore := store_put uuid ?m (chatStore (db s))\<rparr>,
               inputText := [], isAsking := True, error := None\<rparr>"
    by simp_all
  have mem: "(uuid, ?m) \<in> set (chatStore (db s1))"
    by (simp add: s1 store_put_member)
  then have "?m \<in> set (store_getAll (chatStore (db s1)))"
    by (force simp: store_getAll_def)
  then have hist: "\<exists>h. getChatHistory (db s1) = Inr h \<and> ?m \<in> set h"
    using ok by (simp add: getChatHistory_def s1)
  have r: "handleAsk_resume uuid' now' (Inl reason) s1
      = s1\<lparr>error := Some (messageOr reason ''Failed to get an answer.''), isAsking := False\<rparr>"
    by (simp add: handleAsk_resume_def)
  show "let userMsg = ?m; s2 = handleAsk_resume uuid' now' (Inl reason) s1
        in q = inputText s \<and> docs = documents s
           \<and> chatHistory s1 = chatHistory s @ [userMsg]
           \<and> (uuid, userMsg) \<in> set (chatStore (db s1))
           \<and> (\<exists>h. getChatHistory (db s1) = Inr h \<and> userMsg \<in> set h)
           \<and> chatHistory s2 = chatHistory s @ [userMsg]
           \<and> db s2 = db s1
           \<and> error s2 = Some (messageOr reason ''Failed to get an answer.'')
           \<and> isAsking s2 = False"
    unfolding Let_def r using q mem hist by (simp add: s1)
next
  assume "trim (inputText s) \<noteq> [] \<and> \<not> isAsking s \<and> documents s \<noteq> []
        \<and> db_failure (db s) = None"
  then show "\<exists>s1. handleAsk_begin uuid now s = Querying (inputText s) (documents s) s1"
    by (simp add: handleAsk_begin_def saveChatMessage_def Let_def)
next
  show "handleAsk_resume uuid' now' (Inl reason) t
        = t\<lparr>error := Some (messageOr reason ''Failed to get an answer.''), isAsking := False\<rparr>"
    by (simp add: handleAsk_resume_def)
qed

theorem ask_failure_keeps_user_message_witness:
  "\<exists>s1. handleAsk_begin ''u-1'' 5 (exampleState [exampleDoc ''d1'' ''NR-L2-TRK-001.pdf''])
          = Querying ''What is the cant limit?'' [exampleDoc ''d1'' ''NR-L2-TRK-001.pdf''] s1
      \<and> chatHistory s1 = [exampleMessage ''u-1'' User ''What is the cant limit?'' 5]
      \<and> (''u-1'', exampleMessage ''u-1'' User ''What is the cant limit?'' 5) \<in> set (chatStore (db s1))
      \<and> chatHistory (handleAsk_resume ''u-2'' 9 (Inl ''Missing API Key.'') s1)
          = [exampleMessage ''u-1'' User ''What is the cant limit?'' 5]
      \<and> db (handleAsk_resume ''u-2'' 9 (Inl ''Missing API Key.'') s1) = db s1
      \<and> error (handleAsk_resume ''u-2'' 9 (Inl ''Missing API Key.'') s1) = Some ''Missing API Key.''"
proof -
  let ?s = "exampleState [exampleDoc ''d1'' ''NR-L2-TRK-001.pdf'']"
  note t = ask_failure_keeps_user_message
    [where uuid = "''u-1''" and now = 5 and s = ?s and uuid' = "''u-2''" and now' = 9
       and reason = "''Missing API Key.''" and t = ?s]
  have g: "trim (inputText ?s) \<noteq> [] \<and> \<not> isAsking ?s \<and> documents ?s \<noteq> []
        \<and> db_failure (db ?s) = None"
    unfolding exampleState_def emptyDatabase_def by (simp add: trim_def isWhiteSpace_def)
  with t obtain s1 where s1: "handleAsk_begin ''u-1'' 5 ?s = Querying (inputText ?s) (documents ?s) s1"
    by blast
  from t s1 show ?thesis
    by (auto simp: Let_def exampleState_def exampleMessage_def messageOr_def)
qed

section \<open>A corrupt file in an upload batch\<close>

lemma processFiles_append:
  "processFiles g (xs @ ys) acc d =
     (case processFiles g xs acc d of
        Inl e \<Rightarrow> Inl e
      | Inr (acc', d') \<Rightarrow> processFiles g ys acc' d')"
  by (induction xs arbitrary: acc d) (auto split: sum.splits prod.splits)

lemma processFile_extraction_fails:
  assumes "looksLikePdf f" "file_size f \<le> 50 * 1024 * 1024" "getDocument (file_data f) = LoadRejected"
  shows "processFile getDocument (f, uuid, now) d = Inl extractionFailed"
  using assms by (simp add: processFile_def looksLikePdf_def extractTextFromPdf_def)

text \<open>
  C2, as stated, fails: the \<open>try\<close> block of \<open>handleFileUpload\<close> encloses the whole
  loop, so the first file whose extraction throws ends the batch. In the batch
  below, \<open>B.pdf\<close> is corrupt; \<open>C.pdf\<close>, which is ingested when uploaded on its
  own, is never processed, and the library shown to the user gains nothing.
\<close>

theorem corrupt_file_aborts_batch:
  "map fst (docStore (db (handleFileUpload exampleGetDocument
       [(exampleFile ''C.pdf'' [2], ''id-3'', 102)] (exampleState [])))) = [''id-3'']
   \<and> extractTextFromPdf exampleGetDocument (file_data (exampleFile ''B.pdf'' [0])) = Inl extractionFailed
   \<and> map fst (docStore (db (handleFileUpload exampleGetDocument
       [(exampleFile ''A.pdf'' [1], ''id-1'', 100),
        (exampleFile ''B.pdf'' [0], ''id-2'', 101),
        (exampleFile ''C.pdf'' [2], ''id-3'', 102)] (exampleState [])))) = [''id-1'']
   \<and> documents (handleFileUpload exampleGetDocument
       [(exampleFile ''A.pdf'' [1], ''id-1'', 100),
        (exampleFile ''B.pdf'' [0], ''id-2'', 101),
        (exampleFile ''C.pdf'' [2], ''id-3'', 102)] (exampleState [])) = []"
  by (simp add: handleFileUpload_def processFile_def exampleFile_def exampleState_def
      exampleGetDocument_def emptyDatabase_def extractTextFromPdf_def saveDocument_def
      Let_def MAX_PAGES_CONTEXT_def)

text \<open>
  C2, amended. An extraction failure on one file ends the batch at that file.
  When the files before it were processed without a throw, the store is left
  exactly as uploading those files alone leaves it, so the documents already
  saved are kept in the store; the failing file and the files after it are not
  ingested (the outcome is the same as if the batch had ended with the failing
  file); the extraction error is shown and the processing flag is lowered.
\<close>

theorem extraction_failure_stops_batch:
  assumes "\<not> isl (processFiles getDocument pre [] (db s))"
    and "looksLikePdf f" and "file_size f \<le> 50 * 1024 * 1024"
    and "getDocument (file_data f) = LoadRejected"
  shows "let s' = handleFileUpload getDocument (pre @ (f, uuid, now) # post) s
         in db s' = db (handleFileUpload getDocument pre s)
            \<and> error s' = Some extractionFailed
            \<and> isProcessingFile s' = False
            \<and> s' = handleFileUpload getDocument (pre @ [(f, uuid, now)]) s"
proof -
  obtain docs d1 where p: "processFiles getDocument pre [] (db s) = Inr (docs, d1)"
    using assms(1) by (cases "processFiles getDocument pre [] (db s)") auto
  have b: "processFile getDocument (f, uuid, now) d1 = Inl extractionFailed"
    using assms(2-4) by (rule processFile_extraction_fails)
  have r: "processFiles getDocument (pre @ (f, uuid, now) # rest) [] (db s) = Inl (extractionFailed, d1)"
    for rest
    by (simp add: processFiles_append p b)
  have m: "messageOr extractionFailed ''Error processing PDF'' = extractionFailed"
    by (simp add: messageOr_def extractionFailed_def)
  have "db (handleFileUpload getDocument pre s) = d1"
    using p by (cases "pre = []") (simp_all add: handleFileUpload_def Let_def)
  then show ?thesis
    using r[of post] r[of "[]"] by (simp add: handleFileUpload_def Let_def m)
qed

theorem extraction_failure_stops_batch_witness:
  "\<not> isl (processFiles exampleGetDocument [(exampleFile ''A.pdf'' [1], ''id-1'', 100)] []
            (db (exampleState [])))
   \<and> looksLikePdf (exampleFile ''B.pdf'' [0])
   \<and> exampleGetDocument (file_data (exampleFile ''B.pdf'' [0])) = LoadRejected
   \<and> db (handleFileUpload exampleGetDocument
         [(exampleFile ''A.pdf'' [1], ''id-1'', 100),
          (exampleFile ''B.pdf'' [0], ''id-2'', 101),
          (exampleFile ''C.pdf'' [2], ''id-3'', 102)] (exampleState []))
       = db (handleFileUpload exampleGetDocument
               [(exampleFile ''A.pdf'' [1], ''id-1'', 100)] (exampleState []))
   \<and> error (handleFileUpload exampleGetDocument
         [(exampleFile ''A.pdf'' [1], ''id-1'', 100),
          (exampleFile ''B.pdf'' [0], ''id-2'', 101),
          (exampleFile ''C.pdf'' [2], ''id-3'', 102)] (exampleState []))
       = Some extractionFailed"
proof -
  have a: "\<not> isl (processFiles exampleGetDocument [(exampleFile ''A.pdf'' [1], ''id-1'', 100)] []
            (db (exampleState [])))"
    by (simp add: processFile_def exampleFile_def exampleState_def
      exampleGetDocument_def emptyDatabase_def extractTextFromPdf_def saveDocument_def
      Let_def MAX_PAGES_CONTEXT_def)
  have b: "looksLikePdf (exampleFile ''B.pdf'' [0])"
    by (simp add: looksLikePdf_def exampleFile_def)
  have c: "file_size (exampleFile ''B.pdf'' [0]) \<le> 50 * 1024 * 1024"
    by (simp add: exampleFile_def)
  have d: "exampleGetDocument (file_data (exampleFile ''B.pdf'' [0])) = LoadRejected"
    by (simp add: exampleGetDocument_def exampleFile_def)
  note t = extraction_failure_stops_batch
    [OF a b c d, of "''id-2''" 101 "[(exampleFile ''C.pdf'' [2], ''id-3'', 102)]",
     unfolded Let_def append_Cons append_Nil]
  from t a b d show ?thesis by blast
qed

section \<open>Deleting a document that citations refer to\<close>

lemma resolveCitation_None_iff:
  "(resolveCitation standard docs = None)
     = (\<forall>d\<in>set docs. \<not> exactMatch standard d \<and> \<not> fuzzyMatch standard d)"
proof (cases "find (exactMatch standard) docs")
  case None
  then have ne: "\<forall>d\<in>set docs. \<not> exactMatch standard d"
    by (simp add: find_None_iff)
  have "resolveCitation standard docs =
      (if filter (fuzzyMatch standard) docs = [] then None
       else Some (hd (sort_key (lengthDistance standard) (filter (fuzzyMatch standard) docs))))"
    using None by (simp add: resolveCitation_alt)
  then show ?thesis
    using ne by (auto simp: filter_empty_conv)
next
  case (Some d)
  then have "d \<in> set docs" "exactMatch standard d"
    by (auto simp: find_Some_iff)
  with Some show ?thesis
    by (auto simp: resolveCitation_alt)
qed

lemma resolveCitation_Some_matches:
  assumes "resolveCitation standard docs = Some d"
  shows "(exactMatch standard d \<or> fuzzyMatch standard d)
     \<and> ((\<exists>e\<in>set docs. exactMatch standard e) \<longrightarrow> exactMatch standard d)"
proof (cases "find (exactMatch standard) docs")
  case None
  let ?c = "filter (fuzzyMatch standard) docs"
  from None have ne: "\<forall>e\<in>set docs. \<not> exactMatch standard e"
    by (simp add: find_None_iff)
  from assms None have c: "?c \<noteq> []" and d: "d = hd (sort_key (lengthDistance standard) ?c)"
    by (auto simp: resolveCitation_alt split: if_splits)
  from hd_sort_key_least[OF c, of "lengthDistance standard"] d have "d \<in> set ?c" by auto
  then have "fuzzyMatch standard d" by simp
  with ne show ?thesis by blast
next
  case (Some x)
  then have "exactMatch standard x" by (auto simp: find_Some_iff)
  with Some assms show ?thesis by (simp add: resolveCitation_alt)
qed

lemma resolveCitation_Some_member:
  assumes "resolveCitation standard docs = Some d"
  shows "d \<in> set docs"
proof (cases "find (exactMatch standard) docs")
  case None
  let ?c = "filter (fuzzyMatch standard) docs"
  from assms None have ne: "?c \<noteq> []" and d: "d = hd (sort_key (lengthDistance standard) ?c)"
    by (auto simp: resolveCitation_alt split: if_splits)
  from hd_sort_key_least[OF ne, of "lengthDistance standard"] d show ?thesis by auto
next
  case (Some x)
  then have "x \<in> set docs" by (auto simp: find_Some_iff)
  with Some assms show ?thesis by (simp add: resolveCitation_alt)
qed

text \<open>
  C10, amended. Deleting a document changes only the document collection: the
  transcript and the stored messages are as before (so citations of the deleted
  document stay in the assistant messages), and so is every document with another
  identifier, in the library and in the store. A later activation of a citation
  never fails: it takes the not-found path when no remaining document matches
  the citation's name exactly or as a substring, and otherwise it opens the
  remaining document that the resolver returns, which matches the citation's
  name (exactly, if any remaining document does).
\<close>

theorem removeDocument_frame:
  "(let s' = removeDocument ident s
    in chatHistory s' = chatHistory s
       \<and> chatStore (db s') = chatStore (db s)
       \<and> filter (\<lambda>d. doc_id d \<noteq> ident) (documents s') = filter (\<lambda>d. doc_id d \<noteq> ident) (documents s)
       \<and> filter (\<lambda>kv. fst kv \<noteq> ident) (docStore (db s'))
           = filter (\<lambda>kv. fst kv \<noteq> ident) (docStore (db s))
       \<and> (db_failure (db s) = None \<longrightarrow>
            documents s' = filter (\<lambda>d. doc_id d \<noteq> ident) (documents s)
            \<and> docStore (db s') = filter (\<lambda>kv. fst kv \<noteq> ident) (docStore (db s)))
       \<and> ((\<forall>d\<in>set (documents s'). \<not> exactMatch (cit_standard citation) d
                                     \<and> \<not> fuzzyMatch (cit_standard citation) d) \<longrightarrow>
            handleCitationClick citation s'
              = s'\<lparr>error := Some (notFoundMessage (cit_standard citation))\<rparr>)
       \<and> ((\<exists>d\<in>set (documents s'). exactMatch (cit_standard citation) d
                                     \<or> fuzzyMatch (cit_standard citation) d) \<longrightarrow>
            (\<exists>d\<in>set (documents s').
               resolveCitation (cit_standard citation) (documents s') = Some d
               \<and> (exactMatch (cit_standard citation) d \<or> fuzzyMatch (cit_standard citation) d)
               \<and> ((\<exists>e\<in>set (documents s'). exactMatch (cit_standard citation) e) \<longrightarrow>
                     exactMatch (cit_standard citation) d)
               \<and> handleCitationClick citation s'
                 = s'\<lparr>error := None,
                      activeClause := Some \<lparr>ac_standardName = doc_name d,
                                           ac_clauseNumber = cit_clause citation,
                                           ac_pdfData = doc_pdfData d,
                                           ac_page = citationPage citation\<rparr>\<rparr>)))"
proof -
  let ?s' = "removeDocument ident s"
  have 1: "chatHistory ?s' = chatHistory s" "chatStore (db ?s') = chatStore (db s)"
    by (simp_all add: removeDocument_def deleteDocument_def split: option.splits)
  have 2: "filter (\<lambda>d. doc_id d \<noteq> ident) (documents ?s') = filter (\<lambda>d. doc_id d \<noteq> ident) (documents s)"
    "filter (\<lambda>kv. fst kv \<noteq> ident) (docStore (db ?s')) = filter (\<lambda>kv. fst kv \<noteq> ident) (docStore (db s))"
    by (simp_all add: removeDocument_def deleteDocument_def store_delete_def split: option.splits)
  have 3: "documents ?s' = filter (\<lambda>d. doc_id d \<noteq> ident) (documents s)
            \<and> docStore (db ?s') = filter (\<lambda>kv. fst kv \<noteq> ident) (docStore (db s))"
    if "db_failure (db s) = None"
    using that by (simp add: removeDocument_def deleteDocument_def store_delete_def)
  have 4: "handleCitationClick citation t = t\<lparr>error := Some (notFoundMessage (cit_standard citation))\<rparr>"
    if "\<forall>d\<in>set (documents t). \<not> exactMatch (cit_standard citation) d
                                     \<and> \<not> fuzzyMatch (cit_standard citation) d" for t
  proof -
    from that have "resolveCitation (cit_standard citation) (documents t) = None"
      by (simp add: resolveCitation_None_iff)
    then show ?thesis by (simp add: handleCitationClick_def)
  qed
  have 5: "\<exists>d\<in>set (documents t).
               resolveCitation (cit_standard citation) (documents t) = Some d
               \<and> (exactMatch (cit_standard citation) d \<or> fuzzyMatch (cit_standard citation) d)
               \<and> ((\<exists>e\<in>set (documents t). exactMatch (cit_standard citation) e) \<longrightarrow>
                     exactMatch (cit_standard citation) d)
               \<and> handleCitationClick citation t
                 = t\<lparr>error := None,
                      activeClause := Some \<lparr>ac_standardName = doc_name d,
                                           ac_clauseNumber = cit_clause citation,
                                           ac_pdfData = doc_pdfData d,
                                           ac_page = citationPage citation\<rparr>\<rparr>"
    if "\<exists>d\<in>set (documents t). exactMatch (cit_standard citation) d
                                     \<or> fuzzyMatch (cit_standard citation) d" for t
  proof -
    from that have "resolveCitation (cit_standard citation) (documents t) \<noteq> None"
      by (auto simp: resolveCitation_None_iff)
    then obtain d where d: "resolveCitation (cit_standard citation) (documents t) = Some d"
      by auto
    then have "d \<in> set (documents t)" by (rule resolveCitation_Some_member)
    moreover note d resolveCitation_Some_matches[OF d]
    moreover have "handleCitationClick citation t
                 = t\<lparr>error := None,
                      activeClause := Some \<lparr>ac_standardName = doc_name d,
                                           ac_clauseNumber = cit_clause citation,
                                           ac_pdfData = doc_pdfData d,
                                           ac_page = citationPage citation\<rparr>\<rparr>"
      using d by (simp add: handleCitationClick_def)
    ultimately show ?thesis by blast
  qed
  show ?thesis
    unfolding Let_def using 1 2 3 4[of ?s'] 5[of ?s'] by blast
qed

text \<open>
  C10, as stated, fails where another document's name contains the cited name:
  after \<open>NR-L2-TRK-001.pdf\<close> is deleted, its citation is resolved by the fuzzy
  pass to \<open>NR-L2-TRK-001 Issue 2.pdf\<close>, and the overlay opens that document
  instead of reporting that the standard was not found.
\<close>

theorem deleted_citation_opens_other_document:
  "resolveCitation ''NR-L2-TRK-001.pdf''
       (documents (exampleState [exampleDoc ''d1'' ''NR-L2-TRK-001.pdf'',
                                 exampleDoc ''d2'' ''NR-L2-TRK-001 Issue 2.pdf'']))
     = Some (exampleDoc ''d1'' ''NR-L2-TRK-001.pdf'')
   \<and> documents (removeDocument ''d1''
         (exampleState [exampleDoc ''d1'' ''NR-L2-TRK-001.pdf'',
                        exampleDoc ''d2'' ''NR-L2-TRK-001 Issue 2.pdf'']))
       = [exampleDoc ''d2'' ''NR-L2-TRK-001 Issue 2.pdf'']
   \<and> error (handleCitationClick
         \<lparr>cit_standard = ''NR-L2-TRK-001.pdf'', cit_clause = ''3.2'', cit_page = Some 4\<rparr>
         (removeDocument ''d1''
           (exampleState [exampleDoc ''d1'' ''NR-L2-TRK-001.pdf'',
                          exampleDoc ''d2'' ''NR-L2-TRK-001 Issue 2.pdf''])))
       = None
   \<and> activeClause (handleCitationClick
         \<lparr>cit_standard = ''NR-L2-TRK-001.pdf'', cit_clause = ''3.2'', cit_page = Some 4\<rparr>
         (removeDocument ''d1''
           (exampleState [exampleDoc ''d1'' ''NR-L2-TRK-001.pdf'',
                          exampleDoc ''d2'' ''NR-L2-TRK-001 Issue 2.pdf''])))
       = Some \<lparr>ac_standardName = ''NR-L2-TRK-001 Issue 2.pdf'', ac_clauseNumber = ''3.2'',
                ac_pdfData = [37, 80, 68], ac_page = 4\<rparr>"
  by (simp add: exampleState_def emptyDatabase_def removeDocument_def deleteDocument_def
      store_delete_def handleCitationClick_def citationPage_def resolve_eval)

theorem removeDocument_frame_witness:
  "db_failure (db (exampleState [exampleDoc ''d1'' ''NR-L2-TRK-001.pdf'',
                                 exampleDoc ''d3'' ''GI-RT7016.pdf''])) = None
   \<and> chatHistory (removeDocument ''d1''
         (exampleState [exampleDoc ''d1'' ''NR-L2-TRK-001.pdf'', exampleDoc ''d3'' ''GI-RT7016.pdf'']))
       = chatHistory (exampleState [exampleDoc ''d1'' ''NR-L2-TRK-001.pdf'',
                                    exampleDoc ''d3'' ''GI-RT7016.pdf''])
   \<and> documents (removeDocument ''d1''
         (exampleState [exampleDoc ''d1'' ''NR-L2-TRK-001.pdf'', exampleDoc ''d3'' ''GI-RT7016.pdf'']))
       = [exampleDoc ''d3'' ''GI-RT7016.pdf'']
   \<and> error (handleCitationClick
         \<lparr>cit_standard = ''NR-L2-TRK-001.pdf'', cit_clause = ''3.2'', cit_page = Some 4\<rparr>
         (removeDocument ''d1''
           (exampleState [exampleDoc ''d1'' ''NR-L2-TRK-001.pdf'', exampleDoc ''d3'' ''GI-RT7016.pdf''])))
       = Some ''Standard \"NR-L2-TRK-001.pdf\" not found in your local library.''
   \<and> activeClause (handleCitationClick
         \<lparr>cit_standard = ''NR-L2-TRK-001.pdf'', cit_clause = ''3.2'', cit_page = Some 4\<rparr>
         (removeDocument ''d1''
           (exampleState [exampleDoc ''d1'' ''NR-L2-TRK-001.pdf'', exampleDoc ''d3'' ''GI-RT7016.pdf''])))
       = None"
proof -
  let ?s = "exampleState [exampleDoc ''d1'' ''NR-L2-TRK-001.pdf'', exampleDoc ''d3'' ''GI-RT7016.pdf'']"
  let ?c = "\<lparr>cit_standard = ''NR-L2-TRK-001.pdf'', cit_clause = ''3.2'', cit_page = Some 4\<rparr>"
  have ok: "db_failure (db ?s) = None"
    by (simp add: exampleState_def emptyDatabase_def)
  have docs: "documents (removeDocument ''d1'' ?s) = [exampleDoc ''d3'' ''GI-RT7016.pdf'']"
    by (simp add: exampleState_def emptyDatabase_def exampleDoc_def removeDocument_def
        deleteDocument_def)
  have none: "\<forall>d\<in>set (documents (removeDocument ''d1'' ?s)).
                \<not> exactMatch (cit_standard ?c) d \<and> \<not> fuzzyMatch (cit_standard ?c) d"
    unfolding docs
    by (simp add: resolve_eval)
  note t = removeDocument_frame [where ident = "''d1''" and s = ?s and citation = ?c, unfolded Let_def]
  from t have h: "chatHistory (removeDocument ''d1'' ?s) = chatHistory ?s" by blast
  from t none have c: "handleCitationClick ?c (removeDocument ''d1'' ?s)
      = (removeDocument ''d1'' ?s)\<lparr>error := Some (notFoundMessage (cit_standard ?c))\<rparr>"
    by blast
  have a: "activeClause (removeDocument ''d1'' ?s) = None"
    by (simp add: exampleState_def removeDocument_def deleteDocument_def emptyDatabase_def)
  show ?thesis
    using ok h docs a unfolding c by (simp add: notFoundMessage_def)
qed

section \<open>Cancelled renders\<close>

text \<open>The handler of this section is the handler of \<open>renderPage\<close>.\<close>

lemma renderPage_settled_eq:
  "renderPage num outcome s =
     (case pdfDoc s of
        None \<Rightarrow> s
      | Some pages \<Rightarrow> renderPage_settled (renderPage_pageNum num pages) outcome s)"
  by (simp add: renderPage_def renderPage_settled_def Let_def split: option.splits)












end
